theory Spec2Isabelle
  imports Main "HOL-Library.Sublist"
begin

section \<open>Values of the program\<close>

text \<open>
  The service handles parsed JSON: the request body (\<^verbatim>\<open>request.json\<close>) and the model's
  reply (\<^verbatim>\<open>json.loads\<close>). Both are arbitrary Python values built from \<^verbatim>\<open>None\<close>, \<^verbatim>\<open>bool\<close>,
  \<^verbatim>\<open>int\<close>, \<^verbatim>\<open>float\<close>, \<^verbatim>\<open>str\<close>, \<^verbatim>\<open>list\<close> and \<^verbatim>\<open>dict\<close> with string keys; nothing in the code
  checks their shape, so the model keeps them untyped.

  \<^item> A \<^verbatim>\<open>dict\<close> is an association list in insertion order (the order \<^verbatim>\<open>.items()\<close> walks);
    the parser never yields the same key twice, lookups go through \<open>map_of\<close>.
  \<^item> A \<^verbatim>\<open>float\<close> is carried by its \<^verbatim>\<open>repr\<close> (\<^verbatim>\<open>'1.5'\<close>, \<^verbatim>\<open>'-0.0'\<close>, \<^verbatim>\<open>'nan'\<close>), which
    identifies it and is all the program ever looks at besides its truth value.
  \<^item> A \<^verbatim>\<open>str\<close> is a \<open>string\<close>, one \<open>char\<close> standing for one code point.
\<close>

datatype json =
    JNull
  | JBool bool
  | JInt int
  | JFloat string
  | JStr string
  | JArr "json list"
  | JObj "(string \<times> json) list"

text \<open>
  Exceptions (subclasses of \<^verbatim>\<open>Exception\<close>) by the classes the handler tells apart.
  \<open>KeyError\<close> carries the missing key, a string; the others carry \<^verbatim>\<open>str(e)\<close>. Messages of errors
  the interpreter raises itself are worded as CPython 3.11 to 3.13 words them.
\<close>

datatype py_exn =
    JSONDecodeError string
  | KeyError string
  | TypeError string
  | AttributeError string
  | OtherException string

text \<open>
  \<^verbatim>\<open>str(e)\<close>. For a \<open>KeyError\<close> it is the \<^verbatim>\<open>repr\<close> of the key: the key between quotes, which
  quotes and which escapes depending on the characters of the key. That function of Python is
  the parameter \<open>kr\<close>.
\<close>

fun str_exn :: "(string \<Rightarrow> string) \<Rightarrow> py_exn \<Rightarrow> string" where
  "str_exn kr (JSONDecodeError m) = m"
| "str_exn kr (KeyError k) = kr k"
| "str_exn kr (TypeError m) = m"
| "str_exn kr (AttributeError m) = m"
| "str_exn kr (OtherException m) = m"

section \<open>The Python operations the code applies to these values\<close>

text \<open>Truth value, as \<^verbatim>\<open>if x\<close> and \<^verbatim>\<open>not x\<close> test it.\<close>

fun truthy :: "json \<Rightarrow> bool" where
  "truthy JNull = False"
| "truthy (JBool b) = b"
| "truthy (JInt i) = (i \<noteq> 0)"
| "truthy (JFloat r) = (r \<noteq> ''0.0'' \<and> r \<noteq> ''-0.0'')"
| "truthy (JStr s) = (s \<noteq> [])"
| "truthy (JArr xs) = (xs \<noteq> [])"
| "truthy (JObj kvs) = (kvs \<noteq> [])"

fun type_name :: "json \<Rightarrow> string" where
  "type_name JNull = ''NoneType''"
| "type_name (JBool b) = ''bool''"
| "type_name (JInt i) = ''int''"
| "type_name (JFloat r) = ''float''"
| "type_name (JStr s) = ''str''"
| "type_name (JArr xs) = ''list''"
| "type_name (JObj kvs) = ''dict''"

definition quoted :: "string \<Rightarrow> string" where
  "quoted s = [CHR 0x27] @ s @ [CHR 0x27]"

text \<open>Decimal digits of a natural number and of an integer (\<^verbatim>\<open>str(n)\<close>).\<close>

function nat_digits :: "nat \<Rightarrow> string" where
  "nat_digits n =
     (if n < 10 then [char_of (48 + n)]
      else nat_digits (n div 10) @ [char_of (48 + n mod 10)])"
  by pat_completeness auto
termination
  by (relation "measure id") auto

declare nat_digits.simps [simp del]

definition int_str :: "int \<Rightarrow> string" where
  "int_str i = (if i < 0 then ''-'' @ nat_digits (nat (- i)) else nat_digits (nat i))"

text \<open>
  \<^verbatim>\<open>f"{v}"\<close>: a string is inserted as it is, the other scalars by their \<^verbatim>\<open>str\<close>. The
  \<^verbatim>\<open>str\<close> of a list or dict (the \<^verbatim>\<open>repr\<close> of its elements) is left to the parameter
  \<open>cs\<close>.
\<close>

fun format_value :: "(json \<Rightarrow> string) \<Rightarrow> json \<Rightarrow> string" where
  "format_value cs JNull = ''None''"
| "format_value cs (JBool b) = (if b then ''True'' else ''False'')"
| "format_value cs (JInt i) = int_str i"
| "format_value cs (JFloat r) = r"
| "format_value cs (JStr s) = s"
| "format_value cs (JArr xs) = cs (JArr xs)"
| "format_value cs (JObj kvs) = cs (JObj kvs)"

text \<open>\<^verbatim>\<open>key in container\<close> for a string key.\<close>

fun py_contains :: "string \<Rightarrow> json \<Rightarrow> py_exn + bool" where
  "py_contains key (JObj kvs) = Inr (map_of kvs key \<noteq> None)"
| "py_contains key (JArr xs) = Inr (JStr key \<in> set xs)"
| "py_contains key (JStr s) = Inr (sublist key s)"
| "py_contains key v =
     Inl (TypeError (''argument of type '' @ quoted (type_name v) @ '' is not iterable''))"

text \<open>\<^verbatim>\<open>container[key]\<close> for a string key.\<close>

fun py_subscript :: "json \<Rightarrow> string \<Rightarrow> py_exn + json" where
  "py_subscript (JObj kvs) key =
     (case map_of kvs key of None \<Rightarrow> Inl (KeyError key) | Some v \<Rightarrow> Inr v)"
| "py_subscript (JArr xs) key =
     Inl (TypeError ''list indices must be integers or slices, not str'')"
| "py_subscript (JStr s) key =
     Inl (TypeError (''string indices must be integers, not '' @ quoted ''str''))"
| "py_subscript v key =
     Inl (TypeError (quoted (type_name v) @ '' object is not subscriptable''))"

text \<open>\<^verbatim>\<open>d.get(key, default)\<close> and \<^verbatim>\<open>d.items()\<close>: methods of \<^verbatim>\<open>dict\<close> only.\<close>

fun dict_get :: "json \<Rightarrow> string \<Rightarrow> json \<Rightarrow> py_exn + json" where
  "dict_get (JObj kvs) key dflt =
     (case map_of kvs key of None \<Rightarrow> Inr dflt | Some v \<Rightarrow> Inr v)"
| "dict_get v key dflt =
     Inl (AttributeError (quoted (type_name v) @ '' object has no attribute '' @ quoted ''get''))"

fun dict_items :: "json \<Rightarrow> py_exn + (string \<times> json) list" where
  "dict_items (JObj kvs) = Inr kvs"
| "dict_items v =
     Inl (AttributeError (quoted (type_name v) @ '' object has no attribute '' @ quoted ''items''))"

text \<open>
  The elements a \<^verbatim>\<open>for\<close> loop or \<^verbatim>\<open>join\<close> walks: those of a list, the keys of a dict,
  the characters of a string; \<open>None\<close> for a value that is not iterable.
\<close>

fun elements :: "json \<Rightarrow> json list option" where
  "elements (JArr xs) = Some xs"
| "elements (JObj kvs) = Some (map (\<lambda>kv. JStr (fst kv)) kvs)"
| "elements (JStr s) = Some (map (\<lambda>c. JStr [c]) s)"
| "elements v = None"

definition py_iter :: "json \<Rightarrow> py_exn + json list" where
  "py_iter v =
     (case elements v of
        None \<Rightarrow> Inl (TypeError (quoted (type_name v) @ '' object is not iterable''))
      | Some xs \<Rightarrow> Inr xs)"

text \<open>\<^verbatim>\<open>sep.join(strings)\<close> on a list of strings.\<close>

fun join :: "string \<Rightarrow> string list \<Rightarrow> string" where
  "join sep [] = []"
| "join sep [x] = x"
| "join sep (x # y # ys) = x @ sep @ join sep (y # ys)"

text \<open>
  \<^verbatim>\<open>sep.join(v)\<close> on any value: every element has to be a string, the first that is not
  raises \<open>TypeError\<close> with its position.
\<close>

fun str_items :: "nat \<Rightarrow> json list \<Rightarrow> py_exn + string list" where
  "str_items i [] = Inr []"
| "str_items i (JStr s # xs) =
     (case str_items (Suc i) xs of Inl e \<Rightarrow> Inl e | Inr ss \<Rightarrow> Inr (s # ss))"
| "str_items i (v # xs) =
     Inl (TypeError (''sequence item '' @ nat_digits i @ '': expected str instance, ''
                     @ type_name v @ '' found''))"

definition py_join :: "string \<Rightarrow> json \<Rightarrow> py_exn + string" where
  "py_join sep v =
     (case elements v of
        None \<Rightarrow> Inl (TypeError ''can only join an iterable'')
      | Some xs \<Rightarrow>
          (case str_items 0 xs of Inl e \<Rightarrow> Inl e | Inr ss \<Rightarrow> Inr (join sep ss)))"

section \<open>The explanation generator\<close>

text \<open>
  The guard of each block, \<^verbatim>\<open>key in state and state[key]\<close>, as the truth value the
  \<^verbatim>\<open>if\<close> sees; \<^verbatim>\<open>and\<close> does not evaluate its right side when the left is false.
\<close>

definition key_set :: "string \<Rightarrow> json \<Rightarrow> py_exn + bool" where
  "key_set key state =
     (case py_contains key state of
        Inl e \<Rightarrow> Inl e
      | Inr False \<Rightarrow> Inr False
      | Inr True \<Rightarrow>
          (case py_subscript state key of Inl e \<Rightarrow> Inl e | Inr v \<Rightarrow> Inr (truthy v)))"

text \<open>
  The three loops append to the list \<^verbatim>\<open>explanations\<close>, which is threaded through as an
  accumulator. An exception leaves the function at once.
\<close>

fun filter_loop ::
  "(json \<Rightarrow> string) \<Rightarrow> (string \<times> json) list \<Rightarrow> string list \<Rightarrow> py_exn + string list" where
  "filter_loop cs [] explanations = Inr explanations"
| "filter_loop cs ((col, filter_def) # rest) explanations =
     (case dict_get filter_def ''filter'' (JStr '''') of
        Inl e \<Rightarrow> Inl e
      | Inr filter_value \<Rightarrow>
     (case dict_get filter_def ''type'' (JStr ''contains'') of
        Inl e \<Rightarrow> Inl e
      | Inr filter_type \<Rightarrow>
          filter_loop cs rest
            (explanations @
              [''Filtered '' @ col @ '' '' @ format_value cs filter_type @ '' ''
                 @ [CHR 0x27] @ format_value cs filter_value @ [CHR 0x27]])))"

definition filter_block ::
  "(json \<Rightarrow> string) \<Rightarrow> json \<Rightarrow> string list \<Rightarrow> py_exn + string list" where
  "filter_block cs state explanations =
     (case key_set ''filterModel'' state of
        Inl e \<Rightarrow> Inl e
      | Inr False \<Rightarrow> Inr explanations
      | Inr True \<Rightarrow>
          (case py_subscript state ''filterModel'' of
             Inl e \<Rightarrow> Inl e
           | Inr filters \<Rightarrow>
               (case dict_items filters of
                  Inl e \<Rightarrow> Inl e
                | Inr kvs \<Rightarrow> filter_loop cs kvs explanations)))"

fun sort_loop ::
  "(json \<Rightarrow> string) \<Rightarrow> json list \<Rightarrow> string list \<Rightarrow> py_exn + string list" where
  "sort_loop cs [] explanations = Inr explanations"
| "sort_loop cs (sort_def # rest) explanations =
     (case py_subscript sort_def ''colId'' of
        Inl e \<Rightarrow> Inl e
      | Inr col \<Rightarrow>
     (case py_subscript sort_def ''sort'' of
        Inl e \<Rightarrow> Inl e
      | Inr s \<Rightarrow>
          sort_loop cs rest
            (explanations @
              [''Sorted by '' @ format_value cs col @ '' (''
                 @ (if s = JStr ''desc'' then ''descending'' else ''ascending'') @ '')''])))"

definition sort_block ::
  "(json \<Rightarrow> string) \<Rightarrow> json \<Rightarrow> string list \<Rightarrow> py_exn + string list" where
  "sort_block cs state explanations =
     (case key_set ''sortModel'' state of
        Inl e \<Rightarrow> Inl e
      | Inr False \<Rightarrow> Inr explanations
      | Inr True \<Rightarrow>
          (case py_subscript state ''sortModel'' of
             Inl e \<Rightarrow> Inl e
           | Inr sorts \<Rightarrow>
               (case py_iter sorts of
                  Inl e \<Rightarrow> Inl e
                | Inr xs \<Rightarrow> sort_loop cs xs explanations)))"

definition group_block :: "json \<Rightarrow> string list \<Rightarrow> py_exn + string list" where
  "group_block state explanations =
     (case key_set ''rowGroupColumns'' state of
        Inl e \<Rightarrow> Inl e
      | Inr False \<Rightarrow> Inr explanations
      | Inr True \<Rightarrow>
          (case py_subscript state ''rowGroupColumns'' of
             Inl e \<Rightarrow> Inl e
           | Inr groups \<Rightarrow>
               (case py_join '', '' groups of
                  Inl e \<Rightarrow> Inl e
                | Inr cols \<Rightarrow> Inr (explanations @ [''Grouped by '' @ cols]))))"

definition generate_explanation ::
  "(json \<Rightarrow> string) \<Rightarrow> json \<Rightarrow> json \<Rightarrow> py_exn + string" where
  "generate_explanation cs query state =
     (case filter_block cs state [] of
        Inl e \<Rightarrow> Inl e
      | Inr ex1 \<Rightarrow>
     (case sort_block cs state ex1 of
        Inl e \<Rightarrow> Inl e
      | Inr ex2 \<Rightarrow>
     (case group_block state ex2 of
        Inl e \<Rightarrow> Inl e
      | Inr ex3 \<Rightarrow>
          if ex3 = [] then Inr (''Applied query: '' @ format_value cs query)
          else Inr (join '' | '' ex3))))"

section \<open>The request handler\<close>

text \<open>
  What the handler takes from outside the repository, as parameters:
  \<^item> \<open>generate_content\<close>: \<^verbatim>\<open>model.generate_content(prompt, generation_config=...)\<close> followed
    by \<^verbatim>\<open>response.text\<close>; the reply text, or the exception either of them raises;
  \<^item> \<open>loads\<close>: \<^verbatim>\<open>json.loads\<close>, the parsed value or the exception (\<open>JSONDecodeError\<close> with its
    \<^verbatim>\<open>str\<close> when the text is not valid JSON);
  \<^item> \<open>dumps\<close>: \<^verbatim>\<open>json.dumps(v, indent=2)\<close>, which does not raise on parsed JSON;
  \<^item> \<open>container_str\<close>: \<^verbatim>\<open>str\<close> of a list or dict;
  \<^item> \<open>key_repr\<close>: \<^verbatim>\<open>repr\<close> of a string, which is the \<^verbatim>\<open>str\<close> of a \<open>KeyError\<close> on that key.
\<close>

record env =
  generate_content :: "string \<Rightarrow> (string \<times> json) list \<Rightarrow> py_exn + string"
  loads :: "string \<Rightarrow> py_exn + json"
  dumps :: "json \<Rightarrow> string"
  container_str :: "json \<Rightarrow> string"
  key_repr :: "string \<Rightarrow> string"

text \<open>A response: the status code and the object given to \<^verbatim>\<open>jsonify\<close>, keys in source order.\<close>

record response =
  status :: nat
  body :: "(string \<times> json) list"

definition generation_config :: "(string \<times> json) list" where
  "generation_config =
     [(''temperature'', JFloat ''0.1''), (''response_mime_type'', JStr ''application/json'')]"

subsection \<open>The prompt\<close>

text \<open>
  The f-string of \<^verbatim>\<open>ai_query\<close>, cut at its four placeholders and around the four column
  lists; \<^verbatim>\<open>{{\<close> and \<^verbatim>\<open>}}\<close> of the source are the braces they stand for.
\<close>

definition prompt_intro :: string where
  \<open>prompt_intro =
     ''You are an AI assistant that converts natural language queries into AG Grid state changes.\<newline>'' @
     ''\<newline>''\<close>

definition current_tab_label :: string where
  \<open>current_tab_label =
     ''CURRENT TAB: ''\<close>

definition columns_heading :: string where
  \<open>columns_heading =
     ''\<newline>'' @
     ''\<newline>'' @
     ''AVAILABLE COLUMNS AND THEIR MEANINGS:\<newline>''\<close>

definition parcels_columns :: string where
  \<open>parcels_columns =
     ''Parcels tab:\<newline>'' @
     ''- mode_of_transport: "TRUCK" or "AIR" (shipping method)\<newline>'' @
     ''- tracking_number: Parcel tracking ID\<newline>'' @
     ''- trip_number: Shipment/trip identifier\<newline>'' @
     ''- scac_code: Carrier code\<newline>'' @
     ''- consignee_name: Company receiving the parcel\<newline>'' @
     ''- weight: Parcel weight in kilograms\<newline>'' @
     ''- commercial_value: Value in USD\<newline>'' @
     ''- origin_country: Country of origin\<newline>'' @
     ''- dest_country: Destination country\<newline>'' @
     ''- source_file: Excel file this parcel came from''\<close>

definition emails_columns :: string where
  \<open>emails_columns =
     ''Emails tab:\<newline>'' @
     ''- from_email: Sender email address (e.g., jency.varghese@spring-gds.com, thomas@rh-brokerage.com)\<newline>'' @
     ''- subject: Email subject line\<newline>'' @
     ''- received_date: When email was received\<newline>'' @
     ''- type: "TRUCK" (DSLQ emails), "AIR" (ORD/USA emails), or generic''\<close>

definition shipments_columns :: string where
  \<open>shipments_columns =
     ''Shipments tab:\<newline>'' @
     ''- trip_number: Trip/AWB identifier\<newline>'' @
     ''- mode: "TRUCK" or "AIR"\<newline>'' @
     ''- parcel_count: Number of parcels in shipment\<newline>'' @
     ''- total_weight: Total weight of shipment\<newline>'' @
     ''- source_file: Source file name''\<close>

definition attachments_columns :: string where
  \<open>attachments_columns =
     ''Attachments tab:\<newline>'' @
     ''- filename: Name of attached file\<newline>'' @
     ''- from_email: Sender who sent the attachment\<newline>'' @
     ''- size: File size in bytes\<newline>'' @
     ''- received_date: Date received''\<close>

definition grid_schema_heading :: string where
  \<open>grid_schema_heading =
     ''\<newline>'' @
     ''\<newline>'' @
     ''GRID SCHEMA:\<newline>''\<close>

definition current_state_heading :: string where
  \<open>current_state_heading =
     ''\<newline>'' @
     ''\<newline>'' @
     ''CURRENT STATE:\<newline>''\<close>

definition user_query_heading :: string where
  \<open>user_query_heading =
     ''\<newline>'' @
     ''\<newline>'' @
     ''USER QUERY: "''\<close>

definition prompt_task :: string where
  \<open>prompt_task =
     ''"\<newline>'' @
     ''\<newline>'' @
     ''Your task:\<newline>'' @
     ''1. Understand what the user wants to do with the grid\<newline>'' @
     ''2. Generate a NEW grid state that accomplishes their goal\<newline>'' @
     ''3. Return ONLY valid JSON matching the schema structure\<newline>'' @
     ''\<newline>'' @
     ''Common operations:\<newline>'' @
     ''- Filtering: Use filterModel to filter by column values\<newline>'' @
     ''- Sorting: Use sortModel to sort columns\<newline>'' @
     ''- Grouping: Use rowGroupColumns and groupKeys\<newline>'' @
     ''- Column visibility: Use columnState to hide/show columns\<newline>'' @
     ''\<newline>'' @
     ''Examples:\<newline>'' @
     ''Query: "Show me all TRUCK parcels"\<newline>'' @
     ''Response: {"filterModel": {"mode_of_transport": {"filterType": "text", "type": "equals", "filter": "TRUCK"}}}\<newline>'' @
     ''\<newline>'' @
     ''Query: "Sort by weight highest first"\<newline>'' @
     ''Response: {"sortModel": [{"colId": "weight", "sort": "desc"}]}\<newline>'' @
     ''\<newline>'' @
     ''Query: "Show emails from Jency"\<newline>'' @
     ''Response: {"filterModel": {"from_email": {"filterType": "text", "type": "contains", "filter": "jency"}}}\<newline>'' @
     ''\<newline>'' @
     ''Query: "Group by mode of transport"\<newline>'' @
     ''Response: {"rowGroupColumns": ["mode_of_transport"]}\<newline>'' @
     ''\<newline>'' @
     ''Query: "Filter to October parcels"\<newline>'' @
     ''Response: {"filterModel": {"source_file": {"filterType": "text", "type": "contains", "filter": "OCT"}}}\<newline>'' @
     ''\<newline>'' @
     ''Now generate the new state for the user's query. Return ONLY valid JSON.\<newline>''\<close>

definition blank_line :: string where
  "blank_line = ''\<newline>\<newline>''"

definition build_prompt :: "env \<Rightarrow> json \<Rightarrow> json \<Rightarrow> json \<Rightarrow> json \<Rightarrow> string" where
  "build_prompt ev tab grid_schema current_state user_query =
     prompt_intro @ current_tab_label @ format_value (container_str ev) tab
     @ columns_heading
     @ parcels_columns @ blank_line
     @ emails_columns @ blank_line
     @ shipments_columns @ blank_line
     @ attachments_columns
     @ grid_schema_heading @ dumps ev grid_schema
     @ current_state_heading @ dumps ev current_state
     @ user_query_heading @ format_value (container_str ev) user_query
     @ prompt_task"

subsection \<open>The handler\<close>

text \<open>The two \<^verbatim>\<open>except\<close> clauses, in the order the source tries them.\<close>

fun handle_exn :: "(string \<Rightarrow> string) \<Rightarrow> py_exn \<Rightarrow> response" where
  "handle_exn kr (JSONDecodeError m) =
     \<lparr>status = 500,
      body = [(''success'', JBool False),
              (''error'', JStr (''Invalid JSON response from AI: '' @ m))]\<rparr>"
| "handle_exn kr e =
     \<lparr>status = 500,
      body = [(''success'', JBool False), (''error'', JStr (str_exn kr e))]\<rparr>"

text \<open>
  The body of the \<^verbatim>\<open>try\<close>. Its argument is what \<^verbatim>\<open>request.json\<close> gives: the parsed
  body, or the exception it raises on a body that is not JSON. The result is the list of
  prompts sent to the external model (empty, or the one prompt) with the response returned or
  the exception raised.
\<close>

definition try_body :: "env \<Rightarrow> py_exn + json \<Rightarrow> string list \<times> (py_exn + response)" where
  "try_body ev request_json =
     (case request_json of
        Inl e \<Rightarrow> ([], Inl e)
      | Inr data \<Rightarrow>
     (case dict_get data ''query'' (JStr '''') of
        Inl e \<Rightarrow> ([], Inl e)
      | Inr user_query \<Rightarrow>
     (case dict_get data ''schema'' (JObj []) of
        Inl e \<Rightarrow> ([], Inl e)
      | Inr grid_schema \<Rightarrow>
     (case dict_get data ''currentState'' (JObj []) of
        Inl e \<Rightarrow> ([], Inl e)
      | Inr current_state \<Rightarrow>
     (case dict_get data ''tab'' (JStr ''parcels'') of
        Inl e \<Rightarrow> ([], Inl e)
      | Inr tab \<Rightarrow>
          if \<not> truthy user_query then
            ([], Inr \<lparr>status = 400,
                      body = [(''success'', JBool False),
                              (''error'', JStr ''No query provided'')]\<rparr>)
          else
            let system_prompt = build_prompt ev tab grid_schema current_state user_query in
            ([system_prompt],
             (case generate_content ev system_prompt generation_config of
                Inl e \<Rightarrow> Inl e
              | Inr text \<Rightarrow>
             (case loads ev text of
                Inl e \<Rightarrow> Inl e
              | Inr new_state \<Rightarrow>
             (case generate_explanation (container_str ev) user_query new_state of
                Inl e \<Rightarrow> Inl e
              | Inr explanation \<Rightarrow>
                  Inr \<lparr>status = 200,
                       body = [(''success'', JBool True),
                               (''newState'', new_state),
                               (''explanation'', JStr explanation)]\<rparr>)))))))))"

definition ai_query :: "env \<Rightarrow> py_exn + json \<Rightarrow> string list \<times> response" where
  "ai_query ev request_json =
     (case try_body ev request_json of
        (calls, Inl e) \<Rightarrow> (calls, handle_exn (key_repr ev) e)
      | (calls, Inr r) \<Rightarrow> (calls, r))"

section \<open>Notions used to state the properties\<close>

text \<open>The value a dict holds at a key, or the given default; the entries of a dict.\<close>

definition lookup_or :: "(string \<times> json) list \<Rightarrow> string \<Rightarrow> json \<Rightarrow> json" where
  "lookup_or kvs key dflt = (case map_of kvs key of None \<Rightarrow> dflt | Some v \<Rightarrow> v)"

fun fields :: "json \<Rightarrow> (string \<times> json) list" where
  "fields (JObj kvs) = kvs"
| "fields v = []"

fun is_dict :: "json \<Rightarrow> bool" where
  "is_dict (JObj kvs) = True"
| "is_dict v = False"

fun is_str :: "json \<Rightarrow> bool" where
  "is_str (JStr s) = True"
| "is_str v = False"

fun is_json_decode_error :: "py_exn \<Rightarrow> bool" where
  "is_json_decode_error (JSONDecodeError m) = True"
| "is_json_decode_error e = False"

text \<open>A key of the patch that produces no fragment: missing, or present with a false value
  (an empty dict, list or string, \<^verbatim>\<open>null\<close>, \<^verbatim>\<open>false\<close>, zero).\<close>

definition unset :: "(string \<times> json) list \<Rightarrow> string \<Rightarrow> bool" where
  "unset kvs key = (case map_of kvs key of None \<Rightarrow> True | Some v \<Rightarrow> \<not> truthy v)"

text \<open>
  The fragments as the specification words them. A filter fragment is
  \<^verbatim>\<open>Filtered <column> <type> '<filter>'\<close> with \<^verbatim>\<open>contains\<close> for a missing \<^verbatim>\<open>type\<close> and the
  empty string for a missing \<^verbatim>\<open>filter\<close>; a sort fragment is \<^verbatim>\<open>Sorted by <colId> (descending)\<close>
  when \<^verbatim>\<open>sort\<close> is \<^verbatim>\<open>"desc"\<close> and \<^verbatim>\<open>Sorted by <colId> (ascending)\<close> otherwise; the group fragment
  is \<^verbatim>\<open>Grouped by\<close> and the columns joined by a comma and a space.
\<close>

definition filter_fragment :: "(json \<Rightarrow> string) \<Rightarrow> string \<times> json \<Rightarrow> string" where
  "filter_fragment cs entry =
     ''Filtered '' @ fst entry @ '' ''
     @ format_value cs (lookup_or (fields (snd entry)) ''type'' (JStr ''contains''))
     @ '' '' @ quoted (format_value cs (lookup_or (fields (snd entry)) ''filter'' (JStr '''')))"

definition sort_fragment :: "(json \<Rightarrow> string) \<Rightarrow> json \<Rightarrow> string" where
  "sort_fragment cs entry =
     ''Sorted by '' @ format_value cs (lookup_or (fields entry) ''colId'' JNull) @ '' (''
     @ (if lookup_or (fields entry) ''sort'' JNull = JStr ''desc''
        then ''descending'' else ''ascending'')
     @ '')''"

definition group_fragments :: "string list \<Rightarrow> string list" where
  "group_fragments cols = (if cols = [] then [] else [''Grouped by '' @ join '', '' cols])"

text \<open>A sort entry the loop can read: a dict with both \<^verbatim>\<open>colId\<close> and \<^verbatim>\<open>sort\<close>.\<close>

fun is_sort_entry :: "json \<Rightarrow> bool" where
  "is_sort_entry (JObj kvs) = (map_of kvs ''colId'' \<noteq> None \<and> map_of kvs ''sort'' \<noteq> None)"
| "is_sort_entry v = False"

text \<open>
  The precondition on a patch: every value of \<^verbatim>\<open>filterModel\<close> is a dict and every entry of
  \<^verbatim>\<open>sortModel\<close> is a dict with both keys.
\<close>

fun explainable :: "json \<Rightarrow> bool" where
  "explainable (JObj kvs) =
     ((case map_of kvs ''filterModel'' of
         Some (JObj fm) \<Rightarrow> list_all (\<lambda>entry. is_dict (snd entry)) fm
       | _ \<Rightarrow> True)
      \<and> (case map_of kvs ''sortModel'' of
         Some (JArr sm) \<Rightarrow> list_all is_sort_entry sm
       | _ \<Rightarrow> True))"
| "explainable v = True"

text \<open>
  The shape of a state patch in the data model: a dict whose \<^verbatim>\<open>filterModel\<close>, when present,
  is a dict, whose \<^verbatim>\<open>sortModel\<close>, when present, is a list, and whose \<^verbatim>\<open>rowGroupColumns\<close>,
  when present, is a list of strings.
\<close>

fun patch_shaped :: "json \<Rightarrow> bool" where
  "patch_shaped (JObj kvs) =
     ((case map_of kvs ''filterModel'' of
         None \<Rightarrow> True | Some (JObj fm) \<Rightarrow> True | Some v \<Rightarrow> False)
      \<and> (case map_of kvs ''sortModel'' of
         None \<Rightarrow> True | Some (JArr sm) \<Rightarrow> True | Some v \<Rightarrow> False)
      \<and> (case map_of kvs ''rowGroupColumns'' of
         None \<Rightarrow> True | Some (JArr cols) \<Rightarrow> list_all is_str cols | Some v \<Rightarrow> False))"
| "patch_shaped v = False"

text \<open>
  An environment for concrete runs: the model answers \<open>reply\<close> to any prompt, the parser
  gives \<open>parsed\<close>, and \<^verbatim>\<open>json.dumps\<close> is the one of the empty dict, the only value the runs
  below serialise. The \<^verbatim>\<open>repr\<close> of a key is the key in single quotes, as it is for a key
  without quote, backslash or control character.
\<close>

definition fixed_env :: "py_exn + string \<Rightarrow> py_exn + json \<Rightarrow> env" where
  "fixed_env reply parsed =
     \<lparr>generate_content = (\<lambda>prompt config. reply),
      loads = (\<lambda>text. parsed),
      dumps = (\<lambda>v. ''{}''),
      container_str = (\<lambda>v. ''{}''),
      key_repr = quoted\<rparr>"

text \<open>The health check: a constant answer.\<close>

definition health :: response where
  "health = \<lparr>status = 200,
             body = [(''status'', JStr ''healthy''), (''model'', JStr ''gemini-2.0-flash-exp'')]\<rparr>"

text \<open>Patches and request bodies for concrete runs.\<close>

definition full_patch :: "(string \<times> json) list" where
  "full_patch =
     [(''filterModel'',
         JObj [(''mode_of_transport'',
                  JObj [(''filterType'', JStr ''text''), (''type'', JStr ''equals''),
                        (''filter'', JStr ''TRUCK'')])]),
      (''sortModel'', JArr [JObj [(''colId'', JStr ''weight''), (''sort'', JStr ''desc'')]]),
      (''rowGroupColumns'', JArr [JStr ''origin_country'', JStr ''dest_country''])]"

definition filter_patch :: "(string \<times> json) list" where
  "filter_patch =
     [(''filterModel'',
         JObj [(''from_email'',
                  JObj [(''filterType'', JStr ''text''), (''type'', JStr ''contains''),
                        (''filter'', JStr ''jency'')]),
               (''subject'', JObj [])])]"

definition sort_patch :: "(string \<times> json) list" where
  "sort_patch =
     [(''sortModel'',
         JArr [JObj [(''colId'', JStr ''weight''), (''sort'', JStr ''desc'')],
               JObj [(''colId'', JStr ''trip_number''), (''sort'', JStr ''asc'')]])]"

definition truck_request :: "(string \<times> json) list" where
  "truck_request = [(''query'', JStr ''Show me all TRUCK parcels'')]"

definition warehouse_request :: "(string \<times> json) list" where
  "warehouse_request = [(''query'', JStr ''Sort by weight''), (''tab'', JStr ''warehouse'')]"

section \<open>Auxiliary facts\<close>

subsection \<open>The blocks of the explanation generator on a dict\<close>

lemma key_set_dict:
  "key_set key (JObj kvs) = Inr (\<not> unset kvs key)"
  by (simp add: key_set_def unset_def split: option.splits)

lemma filter_loop_dicts:
  "list_all (\<lambda>entry. is_dict (snd entry)) fm \<Longrightarrow>
   filter_loop cs fm acc = Inr (acc @ map (filter_fragment cs) fm)"
proof (induction fm arbitrary: acc)
  case Nil
  then show ?case by simp
next
  case (Cons entry fm)
  obtain col d where entry: "entry = (col, d)" by (cases entry)
  with Cons.prems obtain kvs where d: "d = JObj kvs" by (cases d) auto
  from Cons.prems have rest: "list_all (\<lambda>entry. is_dict (snd entry)) fm" by simp
  show ?case
    by (simp add: entry d Cons.IH [OF rest] filter_fragment_def lookup_or_def quoted_def
             split: option.splits)
qed

lemma filter_loop_returns:
  "filter_loop cs fm acc = Inr r \<Longrightarrow> list_all (\<lambda>entry. is_dict (snd entry)) fm"
proof (induction fm arbitrary: acc)
  case Nil
  then show ?case by simp
next
  case (Cons entry fm)
  obtain col d where entry: "entry = (col, d)" by (cases entry)
  show ?case
  proof (cases d)
    case (JObj kvs)
    with Cons.prems entry obtain acc' where "filter_loop cs fm acc' = Inr r"
      by (auto split: option.splits)
    then have "list_all (\<lambda>entry. is_dict (snd entry)) fm" by (rule Cons.IH)
    with JObj entry show ?thesis by simp
  qed (use Cons.prems entry in auto)
qed

lemma sort_loop_entries:
  "list_all is_sort_entry sm \<Longrightarrow>
   sort_loop cs sm acc = Inr (acc @ map (sort_fragment cs) sm)"
proof (induction sm arbitrary: acc)
  case Nil
  then show ?case by simp
next
  case (Cons entry sm)
  from Cons.prems obtain kvs where d: "entry = JObj kvs" by (cases entry) auto
  from Cons.prems have rest: "list_all is_sort_entry sm" by simp
  from Cons.prems d show ?case
    by (auto simp: Cons.IH [OF rest] sort_fragment_def lookup_or_def)
qed

lemma sort_loop_returns:
  "sort_loop cs sm acc = Inr r \<Longrightarrow> list_all is_sort_entry sm"
proof (induction sm arbitrary: acc)
  case Nil
  then show ?case by simp
next
  case (Cons entry sm)
  show ?case
  proof (cases entry)
    case (JObj kvs)
    with Cons.prems obtain acc' where "sort_loop cs sm acc' = Inr r" and "is_sort_entry entry"
      by (auto split: option.splits)
    then show ?thesis using Cons.IH by simp
  qed (use Cons.prems in auto)
qed

lemma str_items_strings: "str_items i (map JStr cols) = Inr cols"
  by (induction cols arbitrary: i) auto

lemma all_strings: "list_all is_str xs \<Longrightarrow> \<exists>cols. xs = map JStr cols"
proof (induction xs)
  case Nil
  then show ?case by simp
next
  case (Cons x xs)
  then obtain cols where "xs = map JStr cols" by auto
  moreover from Cons.prems obtain s where "x = JStr s" by (cases x) auto
  ultimately have "x # xs = map JStr (s # cols)" by simp
  then show ?case by (rule exI)
qed

lemma filter_block_unset:
  "unset kvs ''filterModel'' \<Longrightarrow> filter_block cs (JObj kvs) acc = Inr acc"
  by (simp add: filter_block_def key_set_dict)

lemma filter_block_dict:
  assumes "map_of kvs ''filterModel'' = Some (JObj fm)"
    and "list_all (\<lambda>entry. is_dict (snd entry)) fm"
  shows "filter_block cs (JObj kvs) acc = Inr (acc @ map (filter_fragment cs) fm)"
  using assms
  by (cases "fm = []") (simp_all add: filter_block_def key_set_dict unset_def filter_loop_dicts)

lemma sort_block_unset:
  "unset kvs ''sortModel'' \<Longrightarrow> sort_block cs (JObj kvs) acc = Inr acc"
  by (simp add: sort_block_def key_set_dict)

lemma sort_block_list:
  assumes "map_of kvs ''sortModel'' = Some (JArr sm)"
    and "list_all is_sort_entry sm"
  shows "sort_block cs (JObj kvs) acc = Inr (acc @ map (sort_fragment cs) sm)"
  using assms
  by (cases "sm = []")
     (simp_all add: sort_block_def key_set_dict unset_def py_iter_def sort_loop_entries)

lemma group_block_unset:
  "unset kvs ''rowGroupColumns'' \<Longrightarrow> group_block (JObj kvs) acc = Inr acc"
  by (simp add: group_block_def key_set_dict)

lemma group_block_list:
  assumes "map_of kvs ''rowGroupColumns'' = Some (JArr (map JStr cols))"
  shows "group_block (JObj kvs) acc = Inr (acc @ group_fragments cols)"
  using assms
  by (cases "cols = []")
     (simp_all add: group_block_def key_set_dict unset_def py_join_def str_items_strings
        group_fragments_def)

lemma generate_explanation_returns:
  assumes "generate_explanation cs query state = Inr s"
  shows "explainable state"
proof (cases state)
  case (JObj kvs)
  from assms obtain ex1 ex2 where
    f: "filter_block cs state [] = Inr ex1" and s: "sort_block cs state ex1 = Inr ex2"
    by (auto simp: generate_explanation_def split: sum.splits)
  have "list_all (\<lambda>entry. is_dict (snd entry)) fm"
    if "map_of kvs ''filterModel'' = Some (JObj fm)" for fm
  proof (cases "fm = []")
    case False
    with f that JObj show ?thesis
      by (auto simp: filter_block_def key_set_dict unset_def dest: filter_loop_returns)
  qed simp
  moreover have "list_all is_sort_entry sm"
    if "map_of kvs ''sortModel'' = Some (JArr sm)" for sm
  proof (cases "sm = []")
    case False
    with s that JObj show ?thesis
      by (auto simp: sort_block_def key_set_dict unset_def py_iter_def dest: sort_loop_returns)
  qed simp
  ultimately show ?thesis
    using JObj by (auto split: option.splits json.splits)
qed simp_all

lemma shaped_explainable_returns:
  assumes "patch_shaped state" and "explainable state"
  shows "\<exists>s. generate_explanation cs query state = Inr s"
proof -
  from assms(1) obtain kvs where st: "state = JObj kvs" by (cases state) auto
  have f: "\<exists>fs. filter_block cs (JObj kvs) [] = Inr fs"
  proof (cases "map_of kvs ''filterModel''")
    case None
    then show ?thesis by (simp add: filter_block_unset unset_def)
  next
    case (Some v)
    with assms st obtain fm where "v = JObj fm" "list_all (\<lambda>entry. is_dict (snd entry)) fm"
      by (cases v) auto
    with Some show ?thesis by (simp add: filter_block_dict)
  qed
  have s: "\<exists>ss. sort_block cs (JObj kvs) acc = Inr ss" for acc
  proof (cases "map_of kvs ''sortModel''")
    case None
    then show ?thesis by (simp add: sort_block_unset unset_def)
  next
    case (Some v)
    with assms st obtain sm where "v = JArr sm" "list_all is_sort_entry sm"
      by (cases v) auto
    with Some show ?thesis by (simp add: sort_block_list)
  qed
  have g: "\<exists>gs. group_block (JObj kvs) acc = Inr gs" for acc
  proof (cases "map_of kvs ''rowGroupColumns''")
    case None
    then show ?thesis by (simp add: group_block_unset unset_def)
  next
    case (Some v)
    with assms st obtain xs where "v = JArr xs" "list_all is_str xs"
      by (cases v) auto
    with Some all_strings [of xs] show ?thesis by (auto simp: group_block_list)
  qed
  from f obtain fs where "filter_block cs (JObj kvs) [] = Inr fs" ..
  moreover from s obtain ss where "sort_block cs (JObj kvs) fs = Inr ss" ..
  moreover from g obtain gs where "group_block (JObj kvs) ss = Inr gs" ..
  ultimately show ?thesis
    by (simp add: st generate_explanation_def)
qed

subsection \<open>The handler up to the external call\<close>

lemma sublist_skip: "sublist xs zs \<Longrightarrow> sublist xs (ys @ zs)"
  by (auto simp: sublist_def) (metis append.assoc)

lemma dict_get_dict: "dict_get (JObj kvs) key dflt = Inr (lookup_or kvs key dflt)"
  by (simp add: lookup_or_def split: option.splits)

lemma unset_lookup: "unset kvs key \<longleftrightarrow> \<not> truthy (lookup_or kvs key (JStr ''''))"
  by (simp add: unset_def lookup_or_def split: option.splits)

lemma prompt_sent:
  assumes "\<not> unset kvs ''query''"
  shows "fst (ai_query ev (Inr (JObj kvs))) =
         [build_prompt ev (lookup_or kvs ''tab'' (JStr ''parcels''))
            (lookup_or kvs ''schema'' (JObj [])) (lookup_or kvs ''currentState'' (JObj []))
            (lookup_or kvs ''query'' (JStr ''''))]"
  using assms
  by (simp add: ai_query_def try_body_def dict_get_dict unset_lookup Let_def
           del: dict_get.simps split: sum.splits prod.splits)

lemma prompt_was_built:
  assumes "fst (ai_query ev request_json) = [p]"
  shows "\<exists>data user_query grid_schema current_state tab.
           request_json = Inr data
           \<and> dict_get data ''query'' (JStr '''') = Inr user_query
           \<and> dict_get data ''schema'' (JObj []) = Inr grid_schema
           \<and> dict_get data ''currentState'' (JObj []) = Inr current_state
           \<and> dict_get data ''tab'' (JStr ''parcels'') = Inr tab
           \<and> truthy user_query
           \<and> p = build_prompt ev tab grid_schema current_state user_query"
  using assms
  by (auto simp: ai_query_def try_body_def Let_def split: sum.splits prod.splits if_splits)

lemma status_not_400: "status (handle_exn kr e) = 500"
  by (cases e) simp_all

lemma status_of_call:
  assumes "fst (ai_query ev request_json) = [p]"
  shows "status (snd (ai_query ev request_json)) = 200
       \<or> status (snd (ai_query ev request_json)) = 500"
  using assms
  by (auto simp: ai_query_def try_body_def Let_def status_not_400
           split: sum.splits prod.splits if_splits)

lemma column_lists_in_prompt:
  "sublist parcels_columns (build_prompt ev tab grid_schema current_state user_query)"
  "sublist emails_columns (build_prompt ev tab grid_schema current_state user_query)"
  "sublist shipments_columns (build_prompt ev tab grid_schema current_state user_query)"
  "sublist attachments_columns (build_prompt ev tab grid_schema current_state user_query)"
  unfolding build_prompt_def by (fast intro: sublist_skip sublist_append_rightI)+

text \<open>A body that is not a JSON object has no \<^verbatim>\<open>get\<close>: the handler answers 500, not 400.\<close>

lemma body_not_a_dict:
  assumes "\<not> is_dict data"
  shows "fst (ai_query ev (Inr data)) = [] \<and> status (snd (ai_query ev (Inr data))) = 500"
  using assms by (cases data) (simp_all add: ai_query_def try_body_def)

section \<open>The request handler: properties\<close>

text \<open>
  C1, as amended. For every request whose body is a JSON object in which \<^verbatim>\<open>query\<close> is absent
  or empty (the empty string, or any other value Python counts as false), the handler returns
  400 with the body \<^verbatim>\<open>{success: false, error: "No query provided"}\<close> and sends nothing to the
  external model.
\<close>

theorem falsy_query_rejected:
  assumes "unset kvs ''query''"
  shows "ai_query ev (Inr (JObj kvs)) =
         ([], \<lparr>status = 400,
               body = [(''success'', JBool False), (''error'', JStr ''No query provided'')]\<rparr>)"
  using assms
  by (simp add: ai_query_def try_body_def dict_get_dict unset_lookup del: dict_get.simps)

theorem falsy_query_rejected_witness:
  "unset [(''query'', JStr ''''), (''tab'', JStr ''emails'')] ''query''
   \<and> ai_query (fixed_env (Inr ''{}'') (Inr (JObj [])))
        (Inr (JObj [(''query'', JStr ''''), (''tab'', JStr ''emails'')]))
     = ([], \<lparr>status = 400,
              body = [(''success'', JBool False), (''error'', JStr ''No query provided'')]\<rparr>)"
proof -
  have u: "unset [(''query'', JStr ''''), (''tab'', JStr ''emails'')] ''query''"
    by (simp add: unset_def)
  from falsy_query_rejected [OF u] u show ?thesis by simp
qed

text \<open>
  C1 as stated also covers whitespace-only queries. The guard is \<^verbatim>\<open>if not user_query\<close> and
  nothing strips the query: a query of three spaces is a true value, the prompt is sent and,
  with a model that answers \<^verbatim>\<open>{}\<close>, the response is 200.
\<close>

theorem whitespace_query_counterexample:
  "fst (ai_query (fixed_env (Inr ''{}'') (Inr (JObj []))) (Inr (JObj [(''query'', JStr ''   '')])))
     \<noteq> []
   \<and> status (snd (ai_query (fixed_env (Inr ''{}'') (Inr (JObj [])))
                  (Inr (JObj [(''query'', JStr ''   '')])))) = 200"
  by (simp add: ai_query_def try_body_def fixed_env_def Let_def generate_explanation_def
        filter_block_def sort_block_def group_block_def key_set_def)

text \<open>
  C2, as amended. For every request with a non-empty query one prompt is sent to the external
  model; it names the tab value after \<^verbatim>\<open>CURRENT TAB: \<close> and it contains the column lists of all
  four tabs (Parcels, Emails, Shipments, Attachments), whatever the tab value is.
\<close>

theorem all_tab_descriptions_in_prompt:
  assumes "\<not> unset kvs ''query''"
  shows "\<exists>p. fst (ai_query ev (Inr (JObj kvs))) = [p]
     \<and> sublist (current_tab_label
                @ format_value (container_str ev) (lookup_or kvs ''tab'' (JStr ''parcels''))) p
     \<and> sublist parcels_columns p
     \<and> sublist emails_columns p
     \<and> sublist shipments_columns p
     \<and> sublist attachments_columns p"
proof -
  let ?p = "build_prompt ev (lookup_or kvs ''tab'' (JStr ''parcels''))
            (lookup_or kvs ''schema'' (JObj [])) (lookup_or kvs ''currentState'' (JObj []))
            (lookup_or kvs ''query'' (JStr ''''))"
  have "fst (ai_query ev (Inr (JObj kvs))) = [?p]"
    using assms by (rule prompt_sent)
  moreover have "sublist (current_tab_label
                @ format_value (container_str ev) (lookup_or kvs ''tab'' (JStr ''parcels''))) ?p"
    unfolding build_prompt_def by (rule sublist_skip) (metis append.assoc sublist_append_rightI)
  ultimately show ?thesis
    by (simp add: column_lists_in_prompt)
qed

theorem all_tab_descriptions_in_prompt_witness:
  "\<not> unset warehouse_request ''query''
   \<and> (\<exists>p. fst (ai_query (fixed_env (Inr ''{}'') (Inr (JObj []))) (Inr (JObj warehouse_request)))
            = [p]
        \<and> sublist (current_tab_label @ ''warehouse'') p
        \<and> sublist parcels_columns p
        \<and> sublist emails_columns p
        \<and> sublist shipments_columns p
        \<and> sublist attachments_columns p)"
proof -
  have q: "\<not> unset warehouse_request ''query''"
    by (simp add: unset_def warehouse_request_def)
  have t: "lookup_or warehouse_request ''tab'' (JStr ''parcels'') = JStr ''warehouse''"
    by (simp add: lookup_or_def warehouse_request_def)
  from all_tab_descriptions_in_prompt [OF q, of "fixed_env (Inr ''{}'') (Inr (JObj []))"] q t
  show ?thesis by simp
qed

text \<open>
  C2 as stated says the prompt holds the column list of the selected tab and not those of the
  other three. For the tab \<^verbatim>\<open>emails\<close> the prompt sent contains the Parcels, Shipments and
  Attachments lists as well.
\<close>

theorem other_tabs_in_prompt_counterexample:
  "fst (ai_query (fixed_env (Inr ''{}'') (Inr (JObj [])))
         (Inr (JObj [(''query'', JStr ''Show emails from Jency''), (''tab'', JStr ''emails'')])))
   = [build_prompt (fixed_env (Inr ''{}'') (Inr (JObj []))) (JStr ''emails'') (JObj []) (JObj [])
        (JStr ''Show emails from Jency'')]
   \<and> sublist parcels_columns
        (build_prompt (fixed_env (Inr ''{}'') (Inr (JObj []))) (JStr ''emails'') (JObj []) (JObj [])
           (JStr ''Show emails from Jency''))
   \<and> sublist shipments_columns
        (build_prompt (fixed_env (Inr ''{}'') (Inr (JObj []))) (JStr ''emails'') (JObj []) (JObj [])
           (JStr ''Show emails from Jency''))
   \<and> sublist attachments_columns
        (build_prompt (fixed_env (Inr ''{}'') (Inr (JObj []))) (JStr ''emails'') (JObj []) (JObj [])
           (JStr ''Show emails from Jency''))"
  by (simp add: column_lists_in_prompt ai_query_def try_body_def Let_def split: sum.splits)

text \<open>
  C3, as amended. For every request in which the external model call raises an error other
  than a JSON-decode failure, the response is 500 with \<^verbatim>\<open>success=false\<close> and an \<^verbatim>\<open>error\<close> field
  equal to the stringified exception (for a \<open>KeyError\<close> the \<^verbatim>\<open>repr\<close> of its key, as Python
  gives it), and it has no \<^verbatim>\<open>newState\<close> field.
\<close>

theorem provider_error_reported:
  assumes "fst (ai_query ev request_json) = [p]"
    and "generate_content ev p generation_config = Inl e"
    and "\<not> is_json_decode_error e"
  shows "snd (ai_query ev request_json) =
           \<lparr>status = 500,
            body = [(''success'', JBool False), (''error'', JStr (str_exn (key_repr ev) e))]\<rparr>
         \<and> map_of (body (snd (ai_query ev request_json))) ''newState'' = None"
proof -
  from prompt_was_built [OF assms(1)] obtain data user_query grid_schema current_state tab where
    "request_json = Inr data"
    "dict_get data ''query'' (JStr '''') = Inr user_query"
    "dict_get data ''schema'' (JObj []) = Inr grid_schema"
    "dict_get data ''currentState'' (JObj []) = Inr current_state"
    "dict_get data ''tab'' (JStr ''parcels'') = Inr tab"
    "truthy user_query"
    "p = build_prompt ev tab grid_schema current_state user_query"
    by blast
  with assms(2) have "ai_query ev request_json = ([p], handle_exn (key_repr ev) e)"
    by (simp add: ai_query_def try_body_def)
  moreover from assms(3) have
    "handle_exn (key_repr ev) e =
       \<lparr>status = 500,
        body = [(''success'', JBool False), (''error'', JStr (str_exn (key_repr ev) e))]\<rparr>"
    by (cases e) simp_all
  ultimately show ?thesis by simp
qed

theorem provider_error_reported_witness:
  "fst (ai_query (fixed_env (Inl (OtherException ''429 Resource has been exhausted'')) (Inr JNull))
         (Inr (JObj truck_request)))
     = [build_prompt (fixed_env (Inl (OtherException ''429 Resource has been exhausted'')) (Inr JNull))
          (JStr ''parcels'') (JObj []) (JObj []) (JStr ''Show me all TRUCK parcels'')]
   \<and> snd (ai_query (fixed_env (Inl (OtherException ''429 Resource has been exhausted'')) (Inr JNull))
         (Inr (JObj truck_request)))
     = \<lparr>status = 500,
        body = [(''success'', JBool False),
                (''error'', JStr ''429 Resource has been exhausted'')]\<rparr>"
proof -
  let ?ev = "fixed_env (Inl (OtherException ''429 Resource has been exhausted'')) (Inr JNull)"
  let ?p = "build_prompt ?ev (JStr ''parcels'') (JObj []) (JObj [])
              (JStr ''Show me all TRUCK parcels'')"
  have sent: "fst (ai_query ?ev (Inr (JObj truck_request))) = [?p]"
    by (simp add: ai_query_def try_body_def truck_request_def Let_def split: sum.splits)
  have raised: "generate_content ?ev ?p generation_config
                = Inl (OtherException ''429 Resource has been exhausted'')"
    by (simp add: fixed_env_def)
  have other: "\<not> is_json_decode_error (OtherException ''429 Resource has been exhausted'')"
    by simp
  from provider_error_reported [OF sent raised other] sent show ?thesis by simp
qed

text \<open>
  C3 as stated says the message is never empty. The field is \<^verbatim>\<open>str(e)\<close> as it is: an
  exception raised without a message (\<^verbatim>\<open>str(e) == ''\<close>) gives an empty \<^verbatim>\<open>error\<close> field.
\<close>

theorem empty_message_counterexample:
  "snd (ai_query (fixed_env (Inl (OtherException '''')) (Inr (JObj [])))
         (Inr (JObj [(''query'', JStr ''Show me all TRUCK parcels'')])))
   = \<lparr>status = 500, body = [(''success'', JBool False), (''error'', JStr '''')]\<rparr>"
  by (simp add: ai_query_def try_body_def fixed_env_def Let_def)

text \<open>
  C4. For every request in which the external model's reply is not valid JSON (\<^verbatim>\<open>json.loads\<close>
  raises \<open>JSONDecodeError\<close> with some detail), the handler returns 500 with \<^verbatim>\<open>success=false\<close>
  and an \<^verbatim>\<open>error\<close> field equal to \<^verbatim>\<open>Invalid JSON response from AI: \<close> followed by the detail;
  the response has no \<^verbatim>\<open>newState\<close> field.
\<close>

theorem invalid_json_reported:
  assumes "fst (ai_query ev request_json) = [p]"
    and "generate_content ev p generation_config = Inr text"
    and "loads ev text = Inl (JSONDecodeError detail)"
  shows "snd (ai_query ev request_json) =
           \<lparr>status = 500,
            body = [(''success'', JBool False),
                    (''error'', JStr (''Invalid JSON response from AI: '' @ detail))]\<rparr>
         \<and> map_of (body (snd (ai_query ev request_json))) ''newState'' = None"
proof -
  from prompt_was_built [OF assms(1)] obtain data user_query grid_schema current_state tab where
    "request_json = Inr data"
    "dict_get data ''query'' (JStr '''') = Inr user_query"
    "dict_get data ''schema'' (JObj []) = Inr grid_schema"
    "dict_get data ''currentState'' (JObj []) = Inr current_state"
    "dict_get data ''tab'' (JStr ''parcels'') = Inr tab"
    "truthy user_query"
    "p = build_prompt ev tab grid_schema current_state user_query"
    by blast
  with assms(2,3) have
    "ai_query ev request_json = ([p], handle_exn (key_repr ev) (JSONDecodeError detail))"
    by (simp add: ai_query_def try_body_def)
  then show ?thesis by simp
qed

theorem invalid_json_reported_witness:
  "fst (ai_query (fixed_env (Inr ''Sure! Here is the state'')
                   (Inl (JSONDecodeError ''Expecting value: line 1 column 1 (char 0)'')))
         (Inr (JObj truck_request)))
     = [build_prompt (fixed_env (Inr ''Sure! Here is the state'')
                   (Inl (JSONDecodeError ''Expecting value: line 1 column 1 (char 0)'')))
          (JStr ''parcels'') (JObj []) (JObj []) (JStr ''Show me all TRUCK parcels'')]
   \<and> snd (ai_query (fixed_env (Inr ''Sure! Here is the state'')
                   (Inl (JSONDecodeError ''Expecting value: line 1 column 1 (char 0)'')))
         (Inr (JObj truck_request)))
     = \<lparr>status = 500,
        body = [(''success'', JBool False),
                (''error'', JStr (''Invalid JSON response from AI: ''
                                  @ ''Expecting value: line 1 column 1 (char 0)''))]\<rparr>"
proof -
  let ?ev = "fixed_env (Inr ''Sure! Here is the state'')
                   (Inl (JSONDecodeError ''Expecting value: line 1 column 1 (char 0)''))"
  let ?p = "build_prompt ?ev (JStr ''parcels'') (JObj []) (JObj [])
              (JStr ''Show me all TRUCK parcels'')"
  have sent: "fst (ai_query ?ev (Inr (JObj truck_request))) = [?p]"
    by (simp add: ai_query_def try_body_def truck_request_def Let_def split: sum.splits)
  have reply: "generate_content ?ev ?p generation_config = Inr ''Sure! Here is the state''"
    by (simp add: fixed_env_def)
  have bad: "loads ?ev ''Sure! Here is the state''
             = Inl (JSONDecodeError ''Expecting value: line 1 column 1 (char 0)'')"
    by (simp add: fixed_env_def)
  from invalid_json_reported [OF sent reply bad] sent show ?thesis by simp
qed

text \<open>
  C10. The handler does not validate \<^verbatim>\<open>tab\<close>: for every string value of \<^verbatim>\<open>tab\<close>, in the
  set of the four tabs or not, a request with a non-empty query is sent to the external model
  with a prompt that holds the literal value right after \<^verbatim>\<open>CURRENT TAB: \<close>, and the response
  is never the 400 rejection.
\<close>

theorem tab_not_validated:
  assumes "\<not> unset kvs ''query''"
    and "map_of kvs ''tab'' = Some (JStr t)"
  shows "\<exists>rest. fst (ai_query ev (Inr (JObj kvs))) = [prompt_intro @ current_tab_label @ t @ rest]
     \<and> status (snd (ai_query ev (Inr (JObj kvs)))) \<noteq> 400"
proof -
  from assms(2) have "lookup_or kvs ''tab'' (JStr ''parcels'') = JStr t"
    by (simp add: lookup_or_def)
  with prompt_sent [OF assms(1), of ev] obtain rest where
    sent: "fst (ai_query ev (Inr (JObj kvs))) = [prompt_intro @ current_tab_label @ t @ rest]"
    by (simp add: build_prompt_def)
  from status_of_call [OF sent] have "status (snd (ai_query ev (Inr (JObj kvs)))) \<noteq> 400"
    by auto
  with sent show ?thesis by blast
qed

theorem tab_not_validated_witness:
  "\<not> unset warehouse_request ''query''
   \<and> map_of warehouse_request ''tab'' = Some (JStr ''warehouse'')
   \<and> (\<exists>rest. fst (ai_query (fixed_env (Inr ''{}'') (Inr (JObj [])))
                     (Inr (JObj warehouse_request)))
               = [prompt_intro @ current_tab_label @ ''warehouse'' @ rest]
        \<and> status (snd (ai_query (fixed_env (Inr ''{}'') (Inr (JObj [])))
                     (Inr (JObj warehouse_request)))) \<noteq> 400)"
proof -
  have q: "\<not> unset warehouse_request ''query''"
    by (simp add: unset_def warehouse_request_def)
  have t: "map_of warehouse_request ''tab'' = Some (JStr ''warehouse'')"
    by (simp add: warehouse_request_def)
  from tab_not_validated [OF q t, of "fixed_env (Inr ''{}'') (Inr (JObj []))"] q t
  show ?thesis by simp
qed

section \<open>The explanation generator: properties\<close>

text \<open>
  C5. For every state patch with any combination of \<^verbatim>\<open>filterModel\<close> (a dict of filter
  descriptors), \<^verbatim>\<open>sortModel\<close> (a list of sort entries) and \<^verbatim>\<open>rowGroupColumns\<close> (a list of
  column names), at least one of them non-empty, the explanation is all filter fragments, then
  all sort fragments, then, when \<^verbatim>\<open>rowGroupColumns\<close> is non-empty, the one fragment
  \<^verbatim>\<open>Grouped by\<close> with the columns in input order joined by a comma and a space; the fragments
  are joined by \<^verbatim>\<open> | \<close> in that order.
\<close>

theorem fragments_in_fixed_order:
  assumes fm: "map_of kvs ''filterModel'' = Some (JObj fm) \<or> unset kvs ''filterModel'' \<and> fm = []"
    and fd: "list_all (\<lambda>entry. is_dict (snd entry)) fm"
    and sm: "map_of kvs ''sortModel'' = Some (JArr sm) \<or> unset kvs ''sortModel'' \<and> sm = []"
    and sd: "list_all is_sort_entry sm"
    and gc: "map_of kvs ''rowGroupColumns'' = Some (JArr (map JStr cols))
             \<or> unset kvs ''rowGroupColumns'' \<and> cols = []"
    and ne: "fm \<noteq> [] \<or> sm \<noteq> [] \<or> cols \<noteq> []"
  shows "generate_explanation cs query (JObj kvs) =
         Inr (join '' | ''
               (map (filter_fragment cs) fm @ map (sort_fragment cs) sm @ group_fragments cols))"
proof -
  have f: "filter_block cs (JObj kvs) [] = Inr (map (filter_fragment cs) fm)"
    using fm fd by (auto simp: filter_block_dict filter_block_unset)
  have s: "sort_block cs (JObj kvs) acc = Inr (acc @ map (sort_fragment cs) sm)" for acc
    using sm sd by (auto simp: sort_block_list sort_block_unset)
  have g: "group_block (JObj kvs) acc = Inr (acc @ group_fragments cols)" for acc
    using gc by (auto simp: group_block_list group_block_unset group_fragments_def)
  from ne have "map (filter_fragment cs) fm @ map (sort_fragment cs) sm @ group_fragments cols \<noteq> []"
    by (auto simp: group_fragments_def)
  then show ?thesis
    by (simp add: generate_explanation_def f s g)
qed

theorem fragments_in_fixed_order_witness:
  "generate_explanation (\<lambda>v. '''') (JStr ''trucks by weight'') (JObj full_patch) =
   Inr (''Filtered mode_of_transport equals 'TRUCK' | Sorted by weight (descending) | ''
        @ ''Grouped by origin_country, dest_country'')"
proof -
  let ?fm = "[(''mode_of_transport'',
                  JObj [(''filterType'', JStr ''text''), (''type'', JStr ''equals''),
                        (''filter'', JStr ''TRUCK'')])]"
  let ?sm = "[JObj [(''colId'', JStr ''weight''), (''sort'', JStr ''desc'')]]"
  let ?cols = "[''origin_country'', ''dest_country'']"
  have fm: "map_of full_patch ''filterModel'' = Some (JObj ?fm)
            \<or> unset full_patch ''filterModel'' \<and> ?fm = []"
    by (simp add: full_patch_def)
  have fd: "list_all (\<lambda>entry. is_dict (snd entry)) ?fm" by simp
  have sm: "map_of full_patch ''sortModel'' = Some (JArr ?sm)
            \<or> unset full_patch ''sortModel'' \<and> ?sm = []"
    by (simp add: full_patch_def)
  have sd: "list_all is_sort_entry ?sm" by simp
  have gc: "map_of full_patch ''rowGroupColumns'' = Some (JArr (map JStr ?cols))
            \<or> unset full_patch ''rowGroupColumns'' \<and> ?cols = []"
    by (simp add: full_patch_def)
  have ne: "?fm \<noteq> [] \<or> ?sm \<noteq> [] \<or> ?cols \<noteq> []" by simp
  from fragments_in_fixed_order [OF fm fd sm sd gc ne, of "\<lambda>v. ''''" "JStr ''trucks by weight''"]
  show ?thesis
    by (simp add: filter_fragment_def sort_fragment_def group_fragments_def lookup_or_def
          quoted_def)
qed

text \<open>
  C6. For every entry (column, descriptor) of \<^verbatim>\<open>filterModel\<close>, in the order of the mapping,
  the generator emits the fragment \<^verbatim>\<open>Filtered <column> <type> '<filter>'\<close>, with \<^verbatim>\<open>contains\<close>
  for a missing \<^verbatim>\<open>type\<close> and the empty string for a missing \<^verbatim>\<open>filter\<close>: the filter block
  appends exactly these fragments to the explanations, and on a patch with nothing else they
  are the explanation.
\<close>

theorem filter_fragment_per_entry:
  assumes "map_of kvs ''filterModel'' = Some (JObj fm)"
    and "list_all (\<lambda>entry. is_dict (snd entry)) fm"
  shows "filter_block cs (JObj kvs) acc = Inr (acc @ map (filter_fragment cs) fm)
    \<and> (fm \<noteq> [] \<and> unset kvs ''sortModel'' \<and> unset kvs ''rowGroupColumns'' \<longrightarrow>
       generate_explanation cs query (JObj kvs) = Inr (join '' | '' (map (filter_fragment cs) fm)))"
  using assms
  by (simp add: generate_explanation_def filter_block_dict sort_block_unset group_block_unset)

theorem filter_fragment_per_entry_witness:
  "filter_block (\<lambda>v. '''') (JObj filter_patch) [] =
     Inr [''Filtered from_email contains 'jency'' @ [CHR 0x27],
          ''Filtered subject contains '' @ [CHR 0x27, CHR 0x27]]
   \<and> generate_explanation (\<lambda>v. '''') (JStr ''mail from Jency'') (JObj filter_patch) =
     Inr (''Filtered from_email contains 'jency' | Filtered subject contains ''
          @ [CHR 0x27, CHR 0x27])"
proof -
  let ?fm = "[(''from_email'',
                  JObj [(''filterType'', JStr ''text''), (''type'', JStr ''contains''),
                        (''filter'', JStr ''jency'')]),
               (''subject'', JObj [])]"
  have fm: "map_of filter_patch ''filterModel'' = Some (JObj ?fm)"
    by (simp add: filter_patch_def)
  have fd: "list_all (\<lambda>entry. is_dict (snd entry)) ?fm" by simp
  have u: "unset filter_patch ''sortModel''" "unset filter_patch ''rowGroupColumns''"
    by (simp_all add: unset_def filter_patch_def)
  from filter_fragment_per_entry [OF fm fd, of "\<lambda>v. ''''" "[]" "JStr ''mail from Jency''"] u
  show ?thesis
    by (simp add: filter_fragment_def lookup_or_def quoted_def)
qed

text \<open>
  C7. For every entry of \<^verbatim>\<open>sortModel\<close>, in sequence order, the generator emits
  \<^verbatim>\<open>Sorted by <colId> (descending)\<close> when the entry's \<^verbatim>\<open>sort\<close> equals \<^verbatim>\<open>"desc"\<close> and
  \<^verbatim>\<open>Sorted by <colId> (ascending)\<close> for every other value: the sort block appends exactly these
  fragments to the explanations, and on a patch with nothing else they are the explanation.
\<close>

theorem sort_fragment_per_entry:
  assumes "map_of kvs ''sortModel'' = Some (JArr sm)"
    and "list_all is_sort_entry sm"
  shows "sort_block cs (JObj kvs) acc = Inr (acc @ map (sort_fragment cs) sm)
    \<and> (sm \<noteq> [] \<and> unset kvs ''filterModel'' \<and> unset kvs ''rowGroupColumns'' \<longrightarrow>
       generate_explanation cs query (JObj kvs) = Inr (join '' | '' (map (sort_fragment cs) sm)))"
  using assms
  by (simp add: generate_explanation_def filter_block_unset sort_block_list group_block_unset)

theorem sort_fragment_per_entry_witness:
  "sort_block (\<lambda>v. '''') (JObj sort_patch) [] =
     Inr [''Sorted by weight (descending)'', ''Sorted by trip_number (ascending)'']
   \<and> generate_explanation (\<lambda>v. '''') (JStr ''heaviest first'') (JObj sort_patch) =
     Inr ''Sorted by weight (descending) | Sorted by trip_number (ascending)''"
proof -
  let ?sm = "[JObj [(''colId'', JStr ''weight''), (''sort'', JStr ''desc'')],
              JObj [(''colId'', JStr ''trip_number''), (''sort'', JStr ''asc'')]]"
  have sm: "map_of sort_patch ''sortModel'' = Some (JArr ?sm)"
    by (simp add: sort_patch_def)
  have sd: "list_all is_sort_entry ?sm" by simp
  have u: "unset sort_patch ''filterModel''" "unset sort_patch ''rowGroupColumns''"
    by (simp_all add: unset_def sort_patch_def)
  from sort_fragment_per_entry [OF sm sd, of "\<lambda>v. ''''" "[]" "JStr ''heaviest first''"] u
  show ?thesis
    by (simp add: sort_fragment_def lookup_or_def)
qed

text \<open>
  C8. For every query string and every state patch that produces no fragment (each of
  \<^verbatim>\<open>filterModel\<close>, \<^verbatim>\<open>sortModel\<close> and \<^verbatim>\<open>rowGroupColumns\<close> missing or empty), the explanation is
  exactly \<^verbatim>\<open>Applied query: \<close> followed by the query text.
\<close>

theorem fallback_when_no_fragments:
  assumes "unset kvs ''filterModel''"
    and "unset kvs ''sortModel''"
    and "unset kvs ''rowGroupColumns''"
  shows "generate_explanation cs (JStr query) (JObj kvs) = Inr (''Applied query: '' @ query)"
  using assms
  by (simp add: generate_explanation_def filter_block_unset sort_block_unset group_block_unset)

theorem fallback_when_no_fragments_witness:
  "unset [(''filterModel'', JObj []), (''sortModel'', JArr [])] ''filterModel''
   \<and> unset [(''filterModel'', JObj []), (''sortModel'', JArr [])] ''sortModel''
   \<and> unset [(''filterModel'', JObj []), (''sortModel'', JArr [])] ''rowGroupColumns''
   \<and> generate_explanation (\<lambda>v. '''') (JStr ''show everything'')
         (JObj [(''filterModel'', JObj []), (''sortModel'', JArr [])])
       = Inr ''Applied query: show everything''"
proof -
  let ?kvs = "[(''filterModel'', JObj []), (''sortModel'', JArr [])]"
  have f: "unset ?kvs ''filterModel''" by (simp add: unset_def)
  have s: "unset ?kvs ''sortModel''" by (simp add: unset_def)
  have g: "unset ?kvs ''rowGroupColumns''" by (simp add: unset_def)
  from fallback_when_no_fragments [OF f s g, of "\<lambda>v. ''''" "''show everything''"] f s g
  show ?thesis by simp
qed

text \<open>
  C9. The generator returns a string only under the precondition that every value of
  \<^verbatim>\<open>filterModel\<close> is a dict and every entry of \<^verbatim>\<open>sortModel\<close> is a dict with both \<^verbatim>\<open>colId\<close> and
  \<^verbatim>\<open>sort\<close>; on a patch of the data model's shape the precondition is also enough; and on a
  \<^verbatim>\<open>sortModel\<close> entry without \<^verbatim>\<open>colId\<close> it raises \<open>KeyError\<close>.
\<close>

theorem total_exactly_on_explainable:
  "(generate_explanation cs query state = Inr s \<longrightarrow> explainable state)
   \<and> (patch_shaped state \<and> explainable state \<longrightarrow>
        (\<exists>s'. generate_explanation cs query state = Inr s'))
   \<and> generate_explanation cs query (JObj [(''sortModel'', JArr [JObj [(''sort'', JStr ''desc'')]])])
       = Inl (KeyError ''colId'')"
proof (intro conjI impI)
  show "generate_explanation cs query (JObj [(''sortModel'', JArr [JObj [(''sort'', JStr ''desc'')]])])
       = Inl (KeyError ''colId'')"
    by (simp add: generate_explanation_def filter_block_def sort_block_def key_set_def py_iter_def)
qed (auto intro: generate_explanation_returns shaped_explainable_returns)

theorem total_exactly_on_explainable_witness:
  "generate_explanation (\<lambda>v. '''') (JStr ''heaviest first'') (JObj sort_patch) =
     Inr ''Sorted by weight (descending) | Sorted by trip_number (ascending)''
   \<and> patch_shaped (JObj sort_patch) \<and> explainable (JObj sort_patch)
   \<and> \<not> explainable (JObj [(''sortModel'', JArr [JObj [(''sort'', JStr ''desc'')]])])"
proof -
  have r: "generate_explanation (\<lambda>v. '''') (JStr ''heaviest first'') (JObj sort_patch) =
     Inr ''Sorted by weight (descending) | Sorted by trip_number (ascending)''"
    by (simp add: generate_explanation_def filter_block_def sort_block_def group_block_def
          key_set_def py_iter_def sort_patch_def)
  have p: "patch_shaped (JObj sort_patch)" by (simp add: sort_patch_def)
  from total_exactly_on_explainable [of "\<lambda>v. ''''" "JStr ''heaviest first''" "JObj sort_patch"
      "''Sorted by weight (descending) | Sorted by trip_number (ascending)''"] r p
  show ?thesis by simp
qed

end
